theory Spec2Isabelle
  imports Main "HOL-Library.Sublist"
begin

section \<open>Data model\<close>

text \<open>
  The scripts of the repository are Node.js programs that read and write files below the
  build output directory, talk to one HTTPS endpoint and call image and compression
  libraries. A file's content (a Node \<^verbatim>\<open>Buffer\<close>, or the text of the HTML document) is a
  list of 8-bit characters; \<^verbatim>\<open>buffer.length\<close> is the length of the list.
\<close>

type_synonym buffer = string
type_synonym path = string

text \<open>
  A JavaScript \<^verbatim>\<open>Error\<close>. \<open>HttpError status message\<close> is the error
  \<^verbatim>\<open>new Error(`HTTP ${response.statusCode}: ${response.statusMessage}`)\<close> of
  \<^verbatim>\<open>downloadAvatar\<close>; \<open>TransportError\<close> is what the request's \<^verbatim>\<open>'error'\<close> event carries;
  \<open>CodecError\<close> is thrown by an image or compression library; \<open>NoSuchFile\<close> by the file
  system.
\<close>

datatype error =
    HttpError nat string
  | TransportError string
  | CodecError string
  | NoSuchFile path

section \<open>Source Fetcher: \<^verbatim>\<open>downloadAvatar\<close>\<close>

text \<open>
  What \<^verbatim>\<open>https.get(url, callback).on('error', reject)\<close> delivers for a URL: a response
  (status line, the \<^verbatim>\<open>Location\<close> header if there is one, and the body as the chunks of
  its \<^verbatim>\<open>'data'\<close> events, followed by \<^verbatim>\<open>'end'\<close>), or an \<^verbatim>\<open>'error'\<close> event. The URL argument
  is \<open>None\<close> where the script passes \<^verbatim>\<open>undefined\<close>, which is what
  \<^verbatim>\<open>response.headers.location\<close> is when the header is absent.
\<close>

record response =
  statusCode :: nat
  statusMessage :: string
  location :: "string option"
  chunks :: "buffer list"

datatype outcome = Response response | ErrorEvent error

definition AVATAR_URL :: string where
  "AVATAR_URL = ''https://github.com/bmarwell.png''"

text \<open>
  The inner function \<^verbatim>\<open>download\<close> of \<^verbatim>\<open>downloadAvatar\<close>. The value is how the promise
  settles: \<open>Some (Inr buffer)\<close> resolved, \<open>Some (Inl e)\<close> rejected, \<open>None\<close> never settled.
  The recursion has no hop counter, as in the source.
\<close>

partial_function (option) download ::
  "(string option \<Rightarrow> outcome) \<Rightarrow> string option \<Rightarrow> (error + buffer) option" where
  "download get url =
     (case get url of
        ErrorEvent e \<Rightarrow> Some (Inl e)
      | Response r \<Rightarrow>
          if statusCode r = 301 \<or> statusCode r = 302 then download get (location r)
          else if statusCode r \<noteq> 200 then
            Some (Inl (HttpError (statusCode r) (statusMessage r)))
          else Some (Inr (concat (chunks r))))"

definition downloadAvatar :: "(string option \<Rightarrow> outcome) \<Rightarrow> (error + buffer) option" where
  "downloadAvatar get = download get (Some AVATAR_URL)"


section \<open>Files, globals and observable effects\<close>

datatype format = PNG | JPEG | Unknown

datatype plugin = Optipng | Mozjpeg

text \<open>
  Observable effects, in the order in which the scripts produce them: the calls into the
  image libraries (\<open>Call\<dots>\<close>) and the lines written to the console (\<open>Log\<dots>\<close>, \<open>Warn\<dots>\<close>,
  \<open>Err\<dots>\<close>, with the values interpolated into the message). Banner lines without data
  are left out.
\<close>

datatype event =
    CallImagemin plugin
  | CallSharpWebp nat
  | CallSharpResizeJpeg nat
  | CallSharpResizeWebp nat
  | CallSharpMetadata
  | LogDownloaded nat
  | LogFormatDetected format
  | LogRenamed string
  | LogOptimized nat nat
  | LogAlreadyOptimal nat
  | LogWebPCreated nat nat nat
  | LogWebPFailed nat error
  | LogNoWebP nat
  | LogVariant string nat
  | LogUsing string "string option"
  | LogDimensions nat nat
  | LogUpdatedHTML bool
  | LogAvatarReady
  | ErrFailedToDownload error
  | LogCompressed string nat nat
  | ErrFailedToCompress path error
  | WarnSkipping string
  | ErrUncaught error

record store =
  files :: "path \<rightharpoonup> buffer"
  trace :: "event list"

text \<open>The module-level \<^verbatim>\<open>let\<close> variables of the avatar script extend the store.\<close>

record world = store +
  AVATAR_FILENAME :: string
  AVATAR_WEBP_FILENAME :: string
  AVATAR_DEST :: path

definition emit :: "event \<Rightarrow> 'a store_scheme \<Rightarrow> 'a store_scheme" where
  "emit e s = s\<lparr>trace := trace s @ [e]\<rparr>"

definition writeFile :: "path \<Rightarrow> buffer \<Rightarrow> 'a store_scheme \<Rightarrow> 'a store_scheme" where
  "writeFile p b s = s\<lparr>files := (files s)(p \<mapsto> b)\<rparr>"

text \<open>\<^verbatim>\<open>fs.rename(from, to)\<close> of an existing file: the target is replaced.\<close>

definition rename :: "path \<Rightarrow> path \<Rightarrow> 'a store_scheme \<Rightarrow> 'a store_scheme" where
  "rename from to s = s\<lparr>files := ((files s)(to := files s from))(from := None)\<rparr>"

text \<open>
  The libraries and the environment of the avatar script. \<open>imagemin p b\<close> is
  \<^verbatim>\<open>imagemin.buffer(b, {plugins})\<close> with the one plugin \<open>p\<close> (optipng at optimisation
  level 7, or mozjpeg at quality 85, progressive); \<open>sharp_webp q b\<close> is
  \<^verbatim>\<open>sharp(file).webp({quality: q, effort: 6}).toBuffer()\<close> for a file holding \<open>b\<close>;
  \<open>sharp_resize_jpeg n b\<close> and \<open>sharp_resize_webp n b\<close> are the cover-cropped square
  renditions (\<^verbatim>\<open>.resize(n, n, {fit: 'cover'})\<close>, then JPEG at quality 85 with mozjpeg, or
  WebP at quality 75, effort 6); \<open>sharp_metadata b\<close> gives width and height. Each may
  throw. \<open>AVATAR_DEST_DIR\<close> is \<^verbatim>\<open>path.join(__dirname, '../dist')\<close>.
\<close>

record env =
  https_get :: "string option \<Rightarrow> outcome"
  imagemin :: "plugin \<Rightarrow> buffer \<Rightarrow> error + buffer"
  sharp_webp :: "nat \<Rightarrow> buffer \<Rightarrow> error + buffer"
  sharp_resize_jpeg :: "nat \<Rightarrow> buffer \<Rightarrow> error + buffer"
  sharp_resize_webp :: "nat \<Rightarrow> buffer \<Rightarrow> error + buffer"
  sharp_metadata :: "buffer \<Rightarrow> error + nat \<times> nat"
  AVATAR_DEST_DIR :: path

definition HTML_FILE :: "env \<Rightarrow> path" where
  "HTML_FILE E = AVATAR_DEST_DIR E @ ''/index.html''"

text \<open>\<^verbatim>\<open>sharp(path)\<close> followed by an operation \<open>f\<close>: the file is read when the result is awaited.\<close>

definition sharp :: "'a store_scheme \<Rightarrow> path \<Rightarrow> (buffer \<Rightarrow> error + 'b) \<Rightarrow> error + 'b" where
  "sharp s p f = (case files s p of None \<Rightarrow> Inl (NoSuchFile p) | Some b \<Rightarrow> f b)"

text \<open>\<^verbatim>\<open>path.basename\<close>, for a path that does not end in a slash.\<close>

definition basename :: "path \<Rightarrow> string" where
  "basename p = rev (takeWhile (\<lambda>c. c \<noteq> CHR ''/'') (rev p))"

text \<open>How a template literal prints a non-negative integer: in decimal.\<close>

fun dec :: "nat \<Rightarrow> string" where
  "dec n = (if n < 10 then [''0123456789'' ! n]
            else dec (n div 10) @ [''0123456789'' ! (n mod 10)])"

declare dec.simps [simp del]

text \<open>
  \<^verbatim>\<open>p.replace(/\.(png|jpg|jpeg)$/, e)\<close> (and the same with the alternatives in the order
  \<^verbatim>\<open>jpg|jpeg|png\<close>): the extension at the end of the path is replaced by \<open>e\<close>; a path
  without one of the three extensions is returned unchanged.
\<close>

definition replace_ext :: "path \<Rightarrow> string \<Rightarrow> path" where
  "replace_ext p e =
     (if suffix ''.png'' p \<or> suffix ''.jpg'' p then take (length p - 4) p @ e
      else if suffix ''.jpeg'' p then take (length p - 5) p @ e
      else p)"

section \<open>Format Classifier and Optimizer: \<^verbatim>\<open>optimizeImage\<close>\<close>

definition isPNG :: "buffer \<Rightarrow> bool" where
  "isPNG b = (case b of b0 # b1 # _ \<Rightarrow> b0 = CHR 0x89 \<and> b1 = CHR 0x50 | _ \<Rightarrow> False)"

definition isJPEG :: "buffer \<Rightarrow> bool" where
  "isJPEG b = (case b of b0 # b1 # _ \<Rightarrow> b0 = CHR 0xFF \<and> b1 = CHR 0xD8 | _ \<Rightarrow> False)"

text \<open>The two \<^verbatim>\<open>if\<close> statements that set \<^verbatim>\<open>format\<close> and \<^verbatim>\<open>extension\<close>; the later one wins.\<close>

definition detect :: "buffer \<Rightarrow> format \<times> string" where
  "detect b =
     (let fe = (Unknown, ''.png'');
          fe = (if isPNG b then (PNG, ''.png'') else fe);
          fe = (if isJPEG b then (JPEG, ''.jpg'') else fe)
      in fe)"

definition plugins :: "buffer \<Rightarrow> plugin" where
  "plugins b = (if isPNG b then Optipng else Mozjpeg)"

section \<open>Variant Generator: \<^verbatim>\<open>createWebP\<close>\<close>

text \<open>
  The quality loop of \<^verbatim>\<open>createWebP\<close>. Each iteration encodes the file at \<open>sourcePath\<close>; an
  exception of the encoder (or a missing file) is caught inside the loop and the next
  quality is tried; the first output shorter than \<open>originalSize\<close> is written and ends the
  loop (\<^verbatim>\<open>break\<close>).
\<close>

fun webp_search :: "env \<Rightarrow> path \<Rightarrow> path \<Rightarrow> nat \<Rightarrow> nat list \<Rightarrow> world \<Rightarrow> world" where
  "webp_search E sourcePath webpPath originalSize [] w = w"
| "webp_search E sourcePath webpPath originalSize (quality # qualities) w =
     (let w = emit (CallSharpWebp quality) w in
      case sharp w sourcePath (sharp_webp E quality) of
        Inl err \<Rightarrow>
          webp_search E sourcePath webpPath originalSize qualities
            (emit (LogWebPFailed quality err) w)
      | Inr webpBuffer \<Rightarrow>
          if length webpBuffer < originalSize then
            (emit (LogWebPCreated originalSize (length webpBuffer) quality)
               (writeFile webpPath webpBuffer w))
              \<lparr>AVATAR_WEBP_FILENAME := basename webpPath\<rparr>
          else webp_search E sourcePath webpPath originalSize qualities w)"

text \<open>
  The loop over the responsive sizes. Nothing is caught here: an exception of
  \<^verbatim>\<open>sharp\<close> ends \<^verbatim>\<open>createWebP\<close> (the first component of the result), with the files
  written so far left in place.
\<close>

fun sized_variants :: "env \<Rightarrow> path \<Rightarrow> nat list \<Rightarrow> world \<Rightarrow> error option \<times> world" where
  "sized_variants E sourcePath [] w = (None, w)"
| "sized_variants E sourcePath (sz # rest) w =
     (let jpgPath = replace_ext sourcePath (''-'' @ dec sz @ ''w.jpg'');
          webpResPath = replace_ext sourcePath (''-'' @ dec sz @ ''w.webp'');
          w = emit (CallSharpResizeJpeg sz) w
      in case sharp w sourcePath (sharp_resize_jpeg E sz) of
           Inl err \<Rightarrow> (Some err, w)
         | Inr jpgBuffer \<Rightarrow>
             (let w = emit (LogVariant (basename jpgPath) (length jpgBuffer))
                        (writeFile jpgPath jpgBuffer w);
                  w = emit (CallSharpResizeWebp sz) w
              in case sharp w sourcePath (sharp_resize_webp E sz) of
                   Inl err \<Rightarrow> (Some err, w)
                 | Inr webpResBuffer \<Rightarrow>
                     sized_variants E sourcePath rest
                       (emit (LogVariant (basename webpResPath) (length webpResBuffer))
                          (writeFile webpResPath webpResBuffer w))))"

definition qualities :: "nat list" where
  "qualities = [80, 75, 70, 65, 60]"

definition sizes :: "nat list" where
  "sizes = [150, 300, 460]"

definition createWebP :: "env \<Rightarrow> path \<Rightarrow> nat \<Rightarrow> world \<Rightarrow> error option \<times> world" where
  "createWebP E sourcePath originalSize w =
     (let webpPath = replace_ext sourcePath ''.webp'';
          w = webp_search E sourcePath webpPath originalSize qualities w;
          w = (if AVATAR_WEBP_FILENAME w = [] then emit (LogNoWebP originalSize) w else w)
      in sized_variants E sourcePath sizes w)"

text \<open>
  \<^verbatim>\<open>optimizeImage\<close>. The result is the world when the function returns or throws, with
  the error thrown (if any): what was renamed or written before an exception stays.
\<close>

definition optimizeImage :: "env \<Rightarrow> path \<Rightarrow> world \<Rightarrow> error option \<times> world" where
  "optimizeImage E filePath w =
     (case files w filePath of
        None \<Rightarrow> (Some (NoSuchFile filePath), w)
      | Some originalBuffer \<Rightarrow>
          (let originalSize = length originalBuffer;
               (format, extension) = detect originalBuffer;
               w = emit (LogFormatDetected format) w;
               correctPath = replace_ext filePath extension;
               w = (if correctPath \<noteq> filePath then
                      (emit (LogRenamed (basename correctPath)) (rename filePath correctPath w))
                        \<lparr>AVATAR_FILENAME := basename correctPath, AVATAR_DEST := correctPath\<rparr>
                    else w);
               w = emit (CallImagemin (plugins originalBuffer)) w
           in case imagemin E (plugins originalBuffer) originalBuffer of
                Inl err \<Rightarrow> (Some err, w)
              | Inr optimized \<Rightarrow>
                  (let w = (if length optimized < originalSize then
                              emit (LogOptimized originalSize (length optimized))
                                (writeFile correctPath optimized w)
                            else emit (LogAlreadyOptimal originalSize) w)
                   in createWebP E correctPath originalSize w)))"

section \<open>Reference Rewriter: \<^verbatim>\<open>updateHTMLReferences\<close>\<close>

text \<open>
  A regular expression is modelled by what it matches at the start of the remaining
  input: \<open>Some n\<close> when it matches the first \<open>n\<close> characters, \<open>None\<close> when it does not match
  there. The expressions of the script have no anchors and no look-around, so a match
  does not depend on the text before it. In the strings of the document a character is
  a code unit below 256.
\<close>

type_synonym regex = "string \<Rightarrow> nat option"

text \<open>A regular expression without operators, such as \<^verbatim>\<open>/src="https:\/\/github\.com\/bmarwell\.png"/\<close>.\<close>

definition lit :: "string \<Rightarrow> regex" where
  "lit p s = (if prefix p s then Some (length p) else None)"

text \<open>
  A literal, a greedy run of a character class (at least \<open>least\<close> characters), a literal:
  \<^verbatim>\<open>/"image":\s*"https:.../\<close> and \<^verbatim>\<open>/<meta ... content="\d+">/\<close>. The character that follows
  the run in these expressions (the double quote) is not in the class, so backtracking
  into the run never finds a match that the greedy run misses.
\<close>

definition lit_run_lit :: "string \<Rightarrow> (char \<Rightarrow> bool) \<Rightarrow> nat \<Rightarrow> string \<Rightarrow> regex" where
  "lit_run_lit h cls least t s =
     (if prefix h s then
        (let rest = drop (length h) s; run = takeWhile cls rest in
         if least \<le> length run \<and> prefix t (dropWhile cls rest)
         then Some (length h + length run + length t) else None)
      else None)"

text \<open>\<^verbatim>\<open>\s\<close> and \<^verbatim>\<open>\d\<close> on code units below 256.\<close>

definition isSpace :: "char \<Rightarrow> bool" where
  "isSpace c = (c \<in> {CHR 0x09, CHR 0x0A, CHR 0x0B, CHR 0x0C, CHR 0x0D, CHR 0x20, CHR 0xA0})"

definition isDigit :: "char \<Rightarrow> bool" where
  "isDigit c = (c \<in> set ''0123456789'')"

text \<open>
  \<^verbatim>\<open>s.replace(re, r)\<close> for a regular expression with the \<^verbatim>\<open>g\<close> flag and a replacement
  string without \<^verbatim>\<open>$\<close>: the matches are found from left to right and do not overlap; the
  search resumes behind a match; after an empty match one character is copied.
\<close>

fun replaceAll :: "regex \<Rightarrow> string \<Rightarrow> string \<Rightarrow> string" where
  "replaceAll re r [] = (case re [] of None \<Rightarrow> [] | Some n \<Rightarrow> r)"
| "replaceAll re r (c # cs) =
     (case re (c # cs) of
        None \<Rightarrow> c # replaceAll re r cs
      | Some n \<Rightarrow>
          if n = 0 then r @ c # replaceAll re r cs
          else r @ replaceAll re r (drop (n - 1) cs))"

definition re_srcset :: regex where
  \<open>re_srcset = lit ''srcset="https://github.com/bmarwell.png"''\<close>

definition re_src :: regex where
  \<open>re_src = lit ''src="https://github.com/bmarwell.png"''\<close>

definition re_content :: regex where
  \<open>re_content = lit ''content="https://github.com/bmarwell.png"''\<close>

definition re_image :: regex where
  \<open>re_image = lit_run_lit ''"image":'' isSpace 0 ''"https://github.com/bmarwell.png"''\<close>

definition re_og_width :: regex where
  \<open>re_og_width = lit_run_lit ''<meta property="og:image:width" content="'' isDigit 1 ''">''\<close>

definition re_og_height :: regex where
  \<open>re_og_height = lit_run_lit ''<meta property="og:image:height" content="'' isDigit 1 ''">''\<close>

definition srcset_webp :: string where
  \<open>srcset_webp = ''srcset="/avatar-150w.webp 150w, /avatar-300w.webp 300w, /avatar-460w.webp 460w" sizes="(max-width: 460px) 150px, (max-width: 768px) 300px, 460px"''\<close>

definition srcset_jpg :: string where
  \<open>srcset_jpg = ''srcset="/avatar-150w.jpg 150w, /avatar-300w.jpg 300w, /avatar-460w.jpg 460w" sizes="(max-width: 460px) 150px, (max-width: 768px) 300px, 460px" src="''\<close>

text \<open>A string or \<^verbatim>\<open>null\<close> as a condition: \<^verbatim>\<open>null\<close> and the empty string are falsy.\<close>

definition truthy :: "string option \<Rightarrow> bool" where
  "truthy v = (case v of None \<Rightarrow> False | Some x \<Rightarrow> x \<noteq> [])"

text \<open>The six substitutions of \<^verbatim>\<open>updateHTMLReferences\<close>, in the order of the source.\<close>

definition rewriteHTML :: "string \<Rightarrow> string option \<Rightarrow> nat \<Rightarrow> nat \<Rightarrow> string \<Rightarrow> string" where
  \<open>rewriteHTML avatarPath avatarWebpPath width height html =
     (let avatarFullUrl = ''https://bmarwell.de'' @ avatarPath;
          html = (if truthy avatarWebpPath then replaceAll re_srcset srcset_webp html
                  else html);
          html = replaceAll re_src (srcset_jpg @ avatarPath @ ''"'') html;
          html = replaceAll re_content (''content="'' @ avatarFullUrl @ ''"'') html;
          html = replaceAll re_image (''"image":"'' @ avatarFullUrl @ ''"'') html;
          html = replaceAll re_og_width
                   (''<meta property="og:image:width" content="'' @ dec width @ ''">'') html;
          html = replaceAll re_og_height
                   (''<meta property="og:image:height" content="'' @ dec height @ ''">'') html
      in html)\<close>

definition updateHTMLReferences :: "env \<Rightarrow> world \<Rightarrow> error option \<times> world" where
  "updateHTMLReferences E w =
     (case files w (HTML_FILE E) of
        None \<Rightarrow> (Some (NoSuchFile (HTML_FILE E)), w)
      | Some html \<Rightarrow>
          (let avatarPath = ''/'' @ AVATAR_FILENAME w;
               avatarWebpPath = (if AVATAR_WEBP_FILENAME w \<noteq> []
                                 then Some (''/'' @ AVATAR_WEBP_FILENAME w) else None);
               w = emit CallSharpMetadata w
           in case sharp w (AVATAR_DEST w) (sharp_metadata E) of
                Inl err \<Rightarrow> (Some err, w)
              | Inr (width, height) \<Rightarrow>
                  (let w = emit (LogUsing avatarPath avatarWebpPath) w;
                       w = emit (LogDimensions width height) w;
                       html = rewriteHTML avatarPath avatarWebpPath width height html;
                       w = writeFile (HTML_FILE E) html w;
                       w = emit (LogUpdatedHTML (truthy avatarWebpPath)) w
                   in (None, w))))"

section \<open>The avatar script\<close>

text \<open>
  \<^verbatim>\<open>main\<close> of the avatar script: every exception is caught and reported, the build goes
  on. The value is \<open>None\<close> when the download never settles.
\<close>

definition avatar_main :: "env \<Rightarrow> world \<Rightarrow> world option" where
  "avatar_main E w =
     (case downloadAvatar (https_get E) of
        None \<Rightarrow> None
      | Some (Inl err) \<Rightarrow> Some (emit (ErrFailedToDownload err) w)
      | Some (Inr imageData) \<Rightarrow>
          (let w = writeFile (AVATAR_DEST w) imageData w;
               w = emit (LogDownloaded (length imageData)) w
           in case optimizeImage E (AVATAR_DEST w) w of
                (Some err, w) \<Rightarrow> Some (emit (ErrFailedToDownload err) w)
              | (None, w) \<Rightarrow>
                  (case updateHTMLReferences E w of
                     (Some err, w) \<Rightarrow> Some (emit (ErrFailedToDownload err) w)
                   | (None, w) \<Rightarrow> Some (emit LogAvatarReady w))))"

text \<open>The module-level initialisers, for the files \<open>fs\<close> found on disk.\<close>

definition initial :: "env \<Rightarrow> (path \<rightharpoonup> buffer) \<Rightarrow> world" where
  "initial E fs =
     \<lparr>files = fs, trace = [],
      AVATAR_FILENAME = ''avatar.png'',
      AVATAR_WEBP_FILENAME = ''avatar.webp'',
      AVATAR_DEST = AVATAR_DEST_DIR E @ ''/'' @ ''avatar.png''\<rparr>"

definition avatar_script :: "env \<Rightarrow> (path \<rightharpoonup> buffer) \<Rightarrow> world option" where
  "avatar_script E fs = avatar_main E (initial E fs)"

section \<open>Compression Stage\<close>

text \<open>
  The three compression scripts (Brotli, Gzip, Zstandard) are the same program up to the
  library they call, the suffix of the file they write and their list of files.
  \<open>lib alg b\<close> is the library call on the content \<open>b\<close> at the configured level
  (\<^verbatim>\<open>Buffer.from(brotli.compress(b, {mode: 0, quality, lgwin: 24}))\<close>,
  \<^verbatim>\<open>Buffer.from(pako.gzip(b, {level, memLevel: 9, strategy: 0}))\<close>,
  \<^verbatim>\<open>await zstd.compress(b, level)\<close>); it may throw.
\<close>

datatype algorithm = Brotli | Gzip | Zstd

fun ext :: "algorithm \<Rightarrow> string" where
  "ext Brotli = ''.br''"
| "ext Gzip = ''.gz''"
| "ext Zstd = ''.zst''"

fun FILES_TO_COMPRESS :: "algorithm \<Rightarrow> string list" where
  "FILES_TO_COMPRESS Brotli = [''index.html'', ''bmarwell.asc'']"
| "FILES_TO_COMPRESS Gzip = [''index.html'', ''bmarwell-apache.asc'', ''bmarwell-personal.asc'']"
| "FILES_TO_COMPRESS Zstd = [''index.html'', ''bmarwell-apache.asc'', ''bmarwell-personal.asc'']"

definition DIST_DIR :: path where
  "DIST_DIR = ''dist''"

text \<open>\<^verbatim>\<open>path.join(dir, file)\<close> for a directory and a plain file name.\<close>

definition join :: "path \<Rightarrow> string \<Rightarrow> path" where
  "join dir file = dir @ ''/'' @ file"

text \<open>\<^verbatim>\<open>compressFile\<close>: everything that is thrown is caught and logged.\<close>

definition compressFile ::
  "(algorithm \<Rightarrow> buffer \<Rightarrow> error + buffer) \<Rightarrow> algorithm \<Rightarrow> path \<Rightarrow> store \<Rightarrow> store" where
  "compressFile lib alg filePath s =
     (case files s filePath of
        None \<Rightarrow> emit (ErrFailedToCompress filePath (NoSuchFile filePath)) s
      | Some content \<Rightarrow>
          (case lib alg content of
             Inl err \<Rightarrow> emit (ErrFailedToCompress filePath err) s
           | Inr compressed \<Rightarrow>
               (let outputPath = filePath @ ext alg;
                    s = writeFile outputPath compressed s
                in emit (LogCompressed (basename filePath @ ext alg)
                           (length content) (length compressed)) s)))"

text \<open>\<^verbatim>\<open>fs.access(path)\<close> throws when the file does not exist.\<close>

definition access :: "store \<Rightarrow> path \<Rightarrow> error + unit" where
  "access s p = (case files s p of None \<Rightarrow> Inl (NoSuchFile p) | Some _ \<Rightarrow> Inr ())"

text \<open>The loop of \<^verbatim>\<open>main\<close> over a list of files.\<close>

fun compress_files ::
  "(algorithm \<Rightarrow> buffer \<Rightarrow> error + buffer) \<Rightarrow> algorithm \<Rightarrow> string list \<Rightarrow> store \<Rightarrow> store" where
  "compress_files lib alg [] s = s"
| "compress_files lib alg (file # rest) s =
     (let filePath = join DIST_DIR file in
      compress_files lib alg rest
        (case access s filePath of
           Inr _ \<Rightarrow> compressFile lib alg filePath s
         | Inl err \<Rightarrow> emit (WarnSkipping file) s))"

definition compress_main ::
  "(algorithm \<Rightarrow> buffer \<Rightarrow> error + buffer) \<Rightarrow> algorithm \<Rightarrow> store \<Rightarrow> error option \<times> store" where
  "compress_main lib alg s = (None, compress_files lib alg (FILES_TO_COMPRESS alg) s)"

text \<open>
  The script: \<^verbatim>\<open>main().catch(console.error)\<close>. The first component is the exit code of
  the process; the scripts of this stage never call \<^verbatim>\<open>process.exit\<close>.
\<close>

definition compress_script ::
  "(algorithm \<Rightarrow> buffer \<Rightarrow> error + buffer) \<Rightarrow> algorithm \<Rightarrow> store \<Rightarrow> nat \<times> store" where
  "compress_script lib alg s =
     (case compress_main lib alg s of
        (None, s) \<Rightarrow> (0, s)
      | (Some err, s) \<Rightarrow> (0, emit (ErrUncaught err) s))"

text \<open>Example networks.\<close>

definition ok_body :: "buffer list" where
  "ok_body = [''PNG'', ''data'']"


definition net_found :: "string option \<Rightarrow> outcome" where
  "net_found url =
     (if url = Some AVATAR_URL then
        Response \<lparr>statusCode = 302, statusMessage = ''Found'',
                  location = Some ''https://avatars.example/u/1'', chunks = []\<rparr>
      else if url = Some ''https://avatars.example/u/1'' then
        Response \<lparr>statusCode = 200, statusMessage = ''OK'', location = None,
                  chunks = ok_body\<rparr>
      else Response \<lparr>statusCode = 404, statusMessage = ''Not Found'', location = None,
                     chunks = []\<rparr>)"

definition net_cycle :: "string option \<Rightarrow> outcome" where
  "net_cycle url =
     (if url = Some AVATAR_URL then
        Response \<lparr>statusCode = 302, statusMessage = ''Found'',
                  location = Some ''https://github.com/loop'', chunks = []\<rparr>
      else Response \<lparr>statusCode = 301, statusMessage = ''Moved Permanently'',
                     location = Some AVATAR_URL, chunks = []\<rparr>)"




definition prefix_lib :: "algorithm \<Rightarrow> buffer \<Rightarrow> error + buffer" where
  "prefix_lib alg b = Inr (CHR ''z'' # b)"


definition all_artifacts :: store where
  "all_artifacts =
     \<lparr>files = [''dist/index.html'' \<mapsto> ''<html>'', ''dist/bmarwell.asc'' \<mapsto> ''K'',
               ''dist/bmarwell-apache.asc'' \<mapsto> ''A'', ''dist/bmarwell-personal.asc'' \<mapsto> ''P''],
      trace = []\<rparr>"

section \<open>Observations and examples for the avatar script\<close>

text \<open>The plugins of the calls to \<^verbatim>\<open>imagemin.buffer\<close> in a trace, in order.\<close>

fun imagemin_calls :: "event list \<Rightarrow> plugin list" where
  "imagemin_calls [] = []"
| "imagemin_calls (CallImagemin p # es) = p # imagemin_calls es"
| "imagemin_calls (e # es) = imagemin_calls es"

text \<open>The qualities of the WebP encodings attempted in a trace, in order.\<close>

fun webp_attempts :: "event list \<Rightarrow> nat list" where
  "webp_attempts [] = []"
| "webp_attempts (CallSharpWebp q # es) = q # webp_attempts es"
| "webp_attempts (e # es) = webp_attempts es"

text \<open>
  Whether the encoding of \<open>src\<close> at quality \<open>q\<close> passes the test of the quality loop: the
  encoder returns, and its output is shorter than \<open>originalSize\<close>.
\<close>

definition qualifies :: "env \<Rightarrow> buffer \<Rightarrow> nat \<Rightarrow> nat \<Rightarrow> bool" where
  "qualifies E src originalSize q =
     (case sharp_webp E q src of Inl err \<Rightarrow> False | Inr webpBuffer \<Rightarrow> length webpBuffer < originalSize)"

text \<open>The content of a file when the script has ended (nothing if it never ends).\<close>

definition file_after :: "world option \<Rightarrow> path \<Rightarrow> buffer option" where
  "file_after r p = (case r of None \<Rightarrow> None | Some w \<Rightarrow> files w p)"

text \<open>Example environments of the avatar script.\<close>

definition demo_env :: env where
  "demo_env =
     \<lparr>https_get = net_found,
      imagemin = (\<lambda>p b. Inr (take 4 b)),
      sharp_webp = (\<lambda>q b. if q = 80 then Inr (b @ ''++++'')
                           else if q = 75 then Inl (CodecError ''encode'')
                           else Inr ''w''),
      sharp_resize_jpeg = (\<lambda>n b. Inr ''j''),
      sharp_resize_webp = (\<lambda>n b. Inr ''v''),
      sharp_metadata = (\<lambda>b. Inr (460, 460)),
      AVATAR_DEST_DIR = ''dist''\<rparr>"

definition net_png :: "string option \<Rightarrow> outcome" where
  "net_png url =
     Response \<lparr>statusCode = 200, statusMessage = ''OK'', location = None,
               chunks = [[CHR 0x89, CHR 0x50], ''NG'']\<rparr>"

definition shrink_env :: env where
  "shrink_env =
     \<lparr>https_get = net_png,
      imagemin = (\<lambda>p b. Inr (take 2 b)),
      sharp_webp = (\<lambda>q b. Inr ''web''),
      sharp_resize_jpeg = (\<lambda>n b. Inr ''j''),
      sharp_resize_webp = (\<lambda>n b. Inr ''v''),
      sharp_metadata = (\<lambda>b. Inr (460, 460)),
      AVATAR_DEST_DIR = ''dist''\<rparr>"

definition nowebp_env :: env where
  "nowebp_env =
     \<lparr>https_get = net_png,
      imagemin = (\<lambda>p b. Inr b),
      sharp_webp = (\<lambda>q b. Inr (b @ ''!'')),
      sharp_resize_jpeg = (\<lambda>n b. Inr ''j''),
      sharp_resize_webp = (\<lambda>n b. Inr ''v''),
      sharp_metadata = (\<lambda>b. Inr (460, 460)),
      AVATAR_DEST_DIR = ''dist''\<rparr>"

definition picture_html :: string where
  \<open>picture_html = ''<source srcset="https://github.com/bmarwell.png" type="image/webp">''\<close>

section \<open>Matches, overlaps and replacement texts\<close>


























section \<open>Properties of the Source Fetcher\<close>









text \<open>
  C10: when the redirects starting at the avatar URL never leave a set of URLs that all
  answer 301 or 302, the promise of \<^verbatim>\<open>downloadAvatar\<close> never settles.
\<close>

lemma download_cycle_never_settles:
  assumes closed: "\<forall>u\<in>C. \<exists>r. get u = Response r \<and>
                     (statusCode r = 301 \<or> statusCode r = 302) \<and> location r \<in> C"
    and settles: "download get u = Some y"
  shows "u \<notin> C"
proof -
  have "get = get \<longrightarrow> u \<notin> C"
  proof (rule download.raw_induct [of "\<lambda>g v z. g = get \<longrightarrow> v \<notin> C", OF _ settles])
    fix dl :: "(string option \<Rightarrow> outcome) \<Rightarrow> string option \<Rightarrow> (error + buffer) option"
    fix g v z
    assume IH: "\<And>x b y. dl x b = Some y \<Longrightarrow> x = get \<longrightarrow> b \<notin> C"
      and body: "(case g v of
                    Response r \<Rightarrow>
                      if statusCode r = 301 \<or> statusCode r = 302 then dl g (location r)
                      else if statusCode r \<noteq> 200 then
                        Some (Inl (HttpError (statusCode r) (statusMessage r)))
                      else Some (Inr (concat (chunks r)))
                  | ErrorEvent e \<Rightarrow> Some (Inl e)) = Some z"
    show "g = get \<longrightarrow> v \<notin> C"
    proof (intro impI notI)
      assume g: "g = get" and "v \<in> C"
      with closed obtain r where r: "get v = Response r"
        "statusCode r = 301 \<or> statusCode r = 302" "location r \<in> C"
        by blast
      with body g have "dl get (location r) = Some z"
        by auto
      from IH [OF this] r(3) show False
        by simp
    qed
  qed
  then show ?thesis
    by simp
qed

theorem C10_redirect_cycle_never_settles:
  assumes "\<forall>u\<in>C. \<exists>r. get u = Response r \<and>
             (statusCode r = 301 \<or> statusCode r = 302) \<and> location r \<in> C"
    and "Some AVATAR_URL \<in> C"
  shows "downloadAvatar get = None"
proof (cases "downloadAvatar get")
  case None
  then show ?thesis .
next
  case (Some y)
  then have "download get (Some AVATAR_URL) = Some y"
    by (simp add: downloadAvatar_def)
  from download_cycle_never_settles [OF assms(1) this] assms(2) show ?thesis
    by simp
qed

theorem C10_redirect_cycle_never_settles_witness:
  "downloadAvatar net_cycle = None"
proof -
  have "\<forall>u\<in>{Some AVATAR_URL, Some ''https://github.com/loop''}.
          \<exists>r. net_cycle u = Response r \<and> (statusCode r = 301 \<or> statusCode r = 302) \<and>
              location r \<in> {Some AVATAR_URL, Some ''https://github.com/loop''}"
    by (simp add: net_cycle_def AVATAR_URL_def)
  then show ?thesis
    by (rule C10_redirect_cycle_never_settles) simp
qed


section \<open>Properties of the Compression Stage\<close>

lemma files_emit [simp]: "files (emit e s) = files s"
  and trace_emit [simp]: "trace (emit e s) = trace s @ [e]"
  by (simp_all add: emit_def)

lemma files_writeFile [simp]: "files (writeFile p b s) = (files s)(p \<mapsto> b)"
  and trace_writeFile [simp]: "trace (writeFile p b s) = trace s"
  by (simp_all add: writeFile_def)













text \<open>
  C8 fails on the code: the list of the Brotli script differs from the list of the Gzip
  and Zstandard scripts. On a store that holds every file named by any of the lists,
  Brotli leaves no sibling for \<^verbatim>\<open>bmarwell-apache.asc\<close>, and Gzip none for
  \<^verbatim>\<open>bmarwell.asc\<close>.
\<close>

theorem C8_file_lists_differ:
  "set (FILES_TO_COMPRESS Brotli) \<noteq> set (FILES_TO_COMPRESS Gzip) \<and>
   FILES_TO_COMPRESS Gzip = FILES_TO_COMPRESS Zstd \<and>
   files (snd (compress_script prefix_lib Brotli all_artifacts)) ''dist/bmarwell-apache.asc.br'' = None \<and>
   files (snd (compress_script prefix_lib Gzip all_artifacts)) ''dist/bmarwell-apache.asc.gz'' = Some ''zA'' \<and>
   files (snd (compress_script prefix_lib Brotli all_artifacts)) ''dist/bmarwell.asc.br'' = Some ''zK'' \<and>
   files (snd (compress_script prefix_lib Gzip all_artifacts)) ''dist/bmarwell.asc.gz'' = None"
proof -
  have "''bmarwell.asc'' \<in> set (FILES_TO_COMPRESS Brotli)"
    and "''bmarwell.asc'' \<notin> set (FILES_TO_COMPRESS Gzip)"
    by simp_all
  then have "set (FILES_TO_COMPRESS Brotli) \<noteq> set (FILES_TO_COMPRESS Gzip)"
    by metis
  then show ?thesis
    by (simp add: compress_script_def compress_main_def Let_def join_def DIST_DIR_def
        access_def compressFile_def all_artifacts_def prefix_lib_def)
qed


section \<open>Properties of the Optimizer and the Variant Generator\<close>

lemma imagemin_calls_append [simp]:
  "imagemin_calls (xs @ ys) = imagemin_calls xs @ imagemin_calls ys"
  by (induction xs rule: imagemin_calls.induct) simp_all

lemma webp_attempts_append [simp]:
  "webp_attempts (xs @ ys) = webp_attempts xs @ webp_attempts ys"
  by (induction xs rule: webp_attempts.induct) simp_all

lemma emit_world [simp]:
  "AVATAR_DEST (emit e w) = AVATAR_DEST w"
  "AVATAR_FILENAME (emit e w) = AVATAR_FILENAME w"
  "AVATAR_WEBP_FILENAME (emit e w) = AVATAR_WEBP_FILENAME w"
  by (simp_all add: emit_def)

lemma writeFile_world [simp]:
  "AVATAR_DEST (writeFile p b w) = AVATAR_DEST w"
  "AVATAR_FILENAME (writeFile p b w) = AVATAR_FILENAME w"
  "AVATAR_WEBP_FILENAME (writeFile p b w) = AVATAR_WEBP_FILENAME w"
  by (simp_all add: writeFile_def)

lemma rename_store [simp]:
  "files (rename p q s) = ((files s)(q := files s p))(p := None)"
  "trace (rename p q s) = trace s"
  by (simp_all add: rename_def)

lemma rename_world [simp]:
  "AVATAR_DEST (rename p q w) = AVATAR_DEST w"
  "AVATAR_FILENAME (rename p q w) = AVATAR_FILENAME w"
  "AVATAR_WEBP_FILENAME (rename p q w) = AVATAR_WEBP_FILENAME w"
  by (simp_all add: rename_def)

lemma sharp_cong: "files s p = files s' p \<Longrightarrow> sharp s p f = sharp s' p f"
  by (simp add: sharp_def)

lemma sharp_emit [simp]: "sharp (emit e s) p f = sharp s p f"
  by (simp add: sharp_def)

lemma replace_ext_known:
  "x \<in> {''.png'', ''.jpg'', ''.jpeg''} \<Longrightarrow> replace_ext (stem @ x) e = stem @ e"
  by (auto simp: replace_ext_def suffix_def)

text \<open>What the quality loop leaves untouched.\<close>

lemma webp_search_frame:
  "p \<noteq> webpPath \<Longrightarrow> files (webp_search E src webpPath n qs w) p = files w p"
  by (induction qs arbitrary: w) (auto simp: Let_def split: sum.splits)

lemma webp_search_globals:
  "AVATAR_DEST (webp_search E src webpPath n qs w) = AVATAR_DEST w \<and>
   AVATAR_FILENAME (webp_search E src webpPath n qs w) = AVATAR_FILENAME w"
  by (induction qs arbitrary: w) (auto simp: Let_def split: sum.splits)

lemma webp_search_imagemin:
  "imagemin_calls (trace (webp_search E src webpPath n qs w)) = imagemin_calls (trace w)"
  by (induction qs arbitrary: w) (auto simp: Let_def split: sum.splits)

lemma webp_search_mono:
  "set (trace w) \<subseteq> set (trace (webp_search E src webpPath n qs w))"
proof (induction qs arbitrary: w)
  case Nil
  then show ?case by simp
next
  case (Cons q qs)
  show ?case
  proof (cases "sharp w src (sharp_webp E q)")
    case (Inl err)
    from Cons [of "emit (LogWebPFailed q err) (emit (CallSharpWebp q) w)"] Inl
    show ?thesis by (auto simp: Let_def)
  next
    case (Inr b)
    from Cons [of "emit (CallSharpWebp q) w"] Inr
    show ?thesis by (auto simp: Let_def)
  qed
qed

text \<open>What the loop over the responsive sizes leaves untouched.\<close>

lemma sized_variants_frame:
  "\<forall>sz\<in>set szs. p \<noteq> replace_ext src (''-'' @ dec sz @ ''w.jpg'') \<and>
                  p \<noteq> replace_ext src (''-'' @ dec sz @ ''w.webp'') \<Longrightarrow>
   files (snd (sized_variants E src szs w)) p = files w p"
  by (induction szs arbitrary: w) (auto simp: Let_def split: sum.splits)

lemma sized_variants_globals:
  "AVATAR_DEST (snd (sized_variants E src szs w)) = AVATAR_DEST w \<and>
   AVATAR_FILENAME (snd (sized_variants E src szs w)) = AVATAR_FILENAME w \<and>
   AVATAR_WEBP_FILENAME (snd (sized_variants E src szs w)) = AVATAR_WEBP_FILENAME w"
  by (induction szs arbitrary: w) (auto simp: Let_def split: sum.splits)

lemma sized_variants_imagemin:
  "imagemin_calls (trace (snd (sized_variants E src szs w))) = imagemin_calls (trace w)"
  by (induction szs arbitrary: w) (auto simp: Let_def split: sum.splits)

lemma sized_variants_attempts:
  "webp_attempts (trace (snd (sized_variants E src szs w))) = webp_attempts (trace w)"
  by (induction szs arbitrary: w) (auto simp: Let_def split: sum.splits)

lemma sized_variants_mono:
  "set (trace w) \<subseteq> set (trace (snd (sized_variants E src szs w)))"
proof (induction szs arbitrary: w)
  case Nil
  then show ?case by simp
next
  case (Cons sz szs)
  have "x \<in> set (trace (snd (sized_variants E src (sz # szs) w)))" if "x \<in> set (trace w)" for x
    using that Cons [THEN subsetD, of x]
    by (auto simp: Let_def split: sum.splits)
  then show ?case
    by blast
qed

text \<open>\<^verbatim>\<open>createWebP\<close> never touches the file it converts, nor the globals of the master.\<close>

lemma createWebP_master:
  assumes "x \<in> {''.png'', ''.jpg'', ''.jpeg''}"
  shows "files (snd (createWebP E (stem @ x) n w)) (stem @ x) = files w (stem @ x)"
proof -
  have "\<forall>sz\<in>set sizes. stem @ x \<noteq> replace_ext (stem @ x) (''-'' @ dec sz @ ''w.jpg'') \<and>
                  stem @ x \<noteq> replace_ext (stem @ x) (''-'' @ dec sz @ ''w.webp'')"
    using assms by (auto simp: replace_ext_known)
  moreover have "stem @ x \<noteq> replace_ext (stem @ x) ''.webp''"
    using assms by (auto simp: replace_ext_known)
  ultimately show ?thesis
    by (simp add: createWebP_def Let_def sized_variants_frame webp_search_frame)
qed

lemma createWebP_globals:
  "AVATAR_DEST (snd (createWebP E src n w)) = AVATAR_DEST w \<and>
   AVATAR_FILENAME (snd (createWebP E src n w)) = AVATAR_FILENAME w"
  by (simp add: createWebP_def Let_def sized_variants_globals webp_search_globals)

lemma createWebP_imagemin:
  "imagemin_calls (trace (snd (createWebP E src n w))) = imagemin_calls (trace w)"
  by (simp add: createWebP_def Let_def sized_variants_imagemin webp_search_imagemin)

lemma createWebP_mono:
  "set (trace w) \<subseteq> set (trace (snd (createWebP E src n w)))"
proof -
  let ?w1 = "webp_search E src (replace_ext src ''.webp'') n qualities w"
  let ?w2 = "if AVATAR_WEBP_FILENAME ?w1 = [] then emit (LogNoWebP n) ?w1 else ?w1"
  have "set (trace w) \<subseteq> set (trace ?w1)"
    by (rule webp_search_mono)
  also have "\<dots> \<subseteq> set (trace ?w2)"
    by auto
  also have "\<dots> \<subseteq> set (trace (snd (sized_variants E src sizes ?w2)))"
    by (rule sized_variants_mono)
  finally show ?thesis
    by (simp add: createWebP_def Let_def)
qed

text \<open>The master file and the globals after \<^verbatim>\<open>optimizeImage\<close>, whether it returns or throws.\<close>

lemma optimizeImage_master:
  assumes present: "files w (stem @ x) = Some b"
    and x: "x \<in> {''.png'', ''.jpg'', ''.jpeg''}"
  shows "files (snd (optimizeImage E (stem @ x) w)) (stem @ snd (detect b)) =
           Some (case imagemin E (plugins b) b of
                   Inl err \<Rightarrow> b
                 | Inr optimized \<Rightarrow> if length optimized < length b then optimized else b)"
    and "AVATAR_DEST (snd (optimizeImage E (stem @ x) w)) =
           (if snd (detect b) = x then AVATAR_DEST w else stem @ snd (detect b))"
    and "AVATAR_FILENAME (snd (optimizeImage E (stem @ x) w)) =
           (if snd (detect b) = x then AVATAR_FILENAME w else basename (stem @ snd (detect b)))"
    and "imagemin_calls (trace (snd (optimizeImage E (stem @ x) w))) =
           imagemin_calls (trace w) @ [plugins b]"
    and "LogFormatDetected (fst (detect b)) \<in> set (trace (snd (optimizeImage E (stem @ x) w)))"
proof -
  obtain fmt e where d: "detect b = (fmt, e)"
    by (cases "detect b")
  then have e: "e \<in> {''.png'', ''.jpg'', ''.jpeg''}"
    by (auto simp: detect_def Let_def split: if_splits)
  show "files (snd (optimizeImage E (stem @ x) w)) (stem @ snd (detect b)) =
           Some (case imagemin E (plugins b) b of
                   Inl err \<Rightarrow> b
                 | Inr optimized \<Rightarrow> if length optimized < length b then optimized else b)"
    using present x e
    by (auto simp: optimizeImage_def Let_def d replace_ext_known createWebP_master split: sum.splits)
  show "AVATAR_DEST (snd (optimizeImage E (stem @ x) w)) =
           (if snd (detect b) = x then AVATAR_DEST w else stem @ snd (detect b))"
    using present x e
    by (auto simp: optimizeImage_def Let_def d replace_ext_known createWebP_globals
             split: sum.splits)
  show "AVATAR_FILENAME (snd (optimizeImage E (stem @ x) w)) =
           (if snd (detect b) = x then AVATAR_FILENAME w else basename (stem @ snd (detect b)))"
    using present x e
    by (auto simp: optimizeImage_def Let_def d replace_ext_known createWebP_globals
             split: sum.splits)
  show "imagemin_calls (trace (snd (optimizeImage E (stem @ x) w))) =
           imagemin_calls (trace w) @ [plugins b]"
    using present x e
    by (auto simp: optimizeImage_def Let_def d replace_ext_known createWebP_imagemin
             split: sum.splits)
  have "LogFormatDetected fmt \<in> set (trace (snd (createWebP E p n w')))"
    if "LogFormatDetected fmt \<in> set (trace w')" for p n w'
    using that createWebP_mono by blast
  then show "LogFormatDetected (fst (detect b)) \<in> set (trace (snd (optimizeImage E (stem @ x) w)))"
    using present x e
    by (auto simp: optimizeImage_def Let_def d replace_ext_known split: sum.splits)
qed

lemma updateHTMLReferences_frame:
  "p \<noteq> HTML_FILE E \<Longrightarrow> files (snd (updateHTMLReferences E w)) p = files w p"
  by (simp add: updateHTMLReferences_def Let_def split: option.splits sum.splits prod.splits)

lemma updateHTMLReferences_globals:
  "AVATAR_DEST (snd (updateHTMLReferences E w)) = AVATAR_DEST w"
  by (simp add: updateHTMLReferences_def Let_def split: option.splits sum.splits prod.splits)


lemma downloadAvatar_net_found: "downloadAvatar net_found = Some (Inr ''PNGdata'')"
  by (simp add: downloadAvatar_def download.simps net_found_def AVATAR_URL_def ok_body_def)

lemma downloadAvatar_net_png:
  "downloadAvatar net_png = Some (Inr [CHR 0x89, CHR 0x50, CHR ''N'', CHR ''G''])"
  by (simp add: downloadAvatar_def download.simps net_png_def)

text \<open>
  C1: whenever the download delivers bytes, the script ends, and the master file (the
  file named by \<^verbatim>\<open>AVATAR_DEST\<close> at the end) holds the output of the optimizer if that is
  strictly shorter than the fetched bytes, and the fetched bytes themselves otherwise
  (also when the optimizer, a later encoder or the rewriting of the document throws). In
  each case it is no longer than what was fetched.
\<close>

theorem C1_master_never_larger_than_fetched:
  assumes "downloadAvatar (https_get E) = Some (Inr fetched)"
  shows "\<exists>w m. avatar_script E fs = Some w \<and> files w (AVATAR_DEST w) = Some m \<and>
           length m \<le> length fetched \<and>
           m = (case imagemin E (plugins fetched) fetched of
                  Inl err \<Rightarrow> fetched
                | Inr optimized \<Rightarrow>
                    if length optimized < length fetched then optimized else fetched)"
proof -
  let ?stem = "AVATAR_DEST_DIR E @ ''/avatar''"
  let ?w1 = "emit (LogDownloaded (length fetched))
               (writeFile (?stem @ ''.png'') fetched (initial E fs))"
  let ?m = "case imagemin E (plugins fetched) fetched of
              Inl err \<Rightarrow> fetched
            | Inr optimized \<Rightarrow> if length optimized < length fetched then optimized else fetched"
  obtain r w2 where opt: "optimizeImage E (?stem @ ''.png'') ?w1 = (r, w2)"
    by (cases "optimizeImage E (?stem @ ''.png'') ?w1")
  have present: "files ?w1 (?stem @ ''.png'') = Some fetched"
    by simp
  have x: "''.png'' \<in> {''.png'', ''.jpg'', ''.jpeg''}"
    by simp
  obtain fmt e where d: "detect fetched = (fmt, e)"
    by (cases "detect fetched")
  then have e: "e = ''.png'' \<or> e = ''.jpg''"
    by (auto simp: detect_def Let_def split: if_splits)
  from optimizeImage_master(1,2) [OF present x, of E] opt d
  have master: "files w2 (?stem @ e) = Some ?m" and dest: "AVATAR_DEST w2 = ?stem @ e"
    by (auto simp: initial_def)
  have html: "?stem @ e \<noteq> HTML_FILE E"
    using e by (auto simp: HTML_FILE_def)
  have len: "length ?m \<le> length fetched"
    by (simp split: sum.splits)
  have run: "avatar_script E fs =
      (case r of
         Some err \<Rightarrow> Some (emit (ErrFailedToDownload err) w2)
       | None \<Rightarrow>
           (case updateHTMLReferences E w2 of
              (Some err, w) \<Rightarrow> Some (emit (ErrFailedToDownload err) w)
            | (None, w) \<Rightarrow> Some (emit LogAvatarReady w)))"
    using assms opt
    by (simp add: avatar_script_def avatar_main_def Let_def initial_def)
  show ?thesis
  proof (cases r)
    case (Some err)
    with run master dest len show ?thesis
      by simp
  next
    case None
    obtain r3 w3 where upd: "updateHTMLReferences E w2 = (r3, w3)"
      by (cases "updateHTMLReferences E w2")
    from updateHTMLReferences_frame [OF html, of w2] updateHTMLReferences_globals [of E w2] upd
    have "files w3 (?stem @ e) = files w2 (?stem @ e)" and "AVATAR_DEST w3 = AVATAR_DEST w2"
      by simp_all
    with None run upd master dest len show ?thesis
      by (cases r3) simp_all
  qed
qed

theorem C1_master_never_larger_than_fetched_witness:
  "\<exists>w. avatar_script demo_env Map.empty = Some w \<and> files w (AVATAR_DEST w) = Some ''PNGd''"
proof -
  have "downloadAvatar (https_get demo_env) = Some (Inr ''PNGdata'')"
    by (simp add: demo_env_def downloadAvatar_net_found)
  from C1_master_never_larger_than_fetched [OF this, of Map.empty]
  show ?thesis
    by (auto simp: demo_env_def)
qed

text \<open>
  C9: for content that starts with neither the PNG nor the JPEG magic, in a file whose
  name ends in \<^verbatim>\<open>.png\<close> (as the downloaded file does): the format is reported as unknown;
  the file is not renamed (the globals keep their values and the master is found at the
  same path); the one call to \<^verbatim>\<open>imagemin\<close> uses the mozjpeg plugin, and its output replaces
  the file if it is strictly shorter.
\<close>

theorem C9_unknown_format_is_png_named_jpeg_compressed:
  assumes "\<not> isPNG b" and "\<not> isJPEG b"
    and "files w filePath = Some b" and "suffix ''.png'' filePath"
  shows "LogFormatDetected Unknown \<in> set (trace (snd (optimizeImage E filePath w))) \<and>
         AVATAR_DEST (snd (optimizeImage E filePath w)) = AVATAR_DEST w \<and>
         AVATAR_FILENAME (snd (optimizeImage E filePath w)) = AVATAR_FILENAME w \<and>
         imagemin_calls (trace (snd (optimizeImage E filePath w))) =
           imagemin_calls (trace w) @ [Mozjpeg] \<and>
         files (snd (optimizeImage E filePath w)) filePath =
           Some (case imagemin E Mozjpeg b of
                   Inl err \<Rightarrow> b
                 | Inr optimized \<Rightarrow> if length optimized < length b then optimized else b)"
proof -
  from assms(4) obtain stem where p: "filePath = stem @ ''.png''"
    by (auto simp: suffix_def)
  have d: "detect b = (Unknown, ''.png'')" and pl: "plugins b = Mozjpeg"
    using assms(1,2) by (simp_all add: detect_def plugins_def)
  have x: "''.png'' \<in> {''.png'', ''.jpg'', ''.jpeg''}"
    by simp
  from optimizeImage_master [OF assms(3) [unfolded p] x, of E]
  show ?thesis
    by (simp add: p d pl)
qed

theorem C9_unknown_format_is_png_named_jpeg_compressed_witness:
  "LogFormatDetected Unknown
     \<in> set (trace (snd (optimizeImage demo_env ''dist/avatar.png''
                          (writeFile ''dist/avatar.png'' ''GIF89a'' (initial demo_env Map.empty))))) \<and>
   files (snd (optimizeImage demo_env ''dist/avatar.png''
                 (writeFile ''dist/avatar.png'' ''GIF89a'' (initial demo_env Map.empty))))
     ''dist/avatar.png'' = Some ''GIF8''"
proof -
  have 1: "\<not> isPNG ''GIF89a''" and 2: "\<not> isJPEG ''GIF89a''"
    by (simp_all add: isPNG_def isJPEG_def)
  have 3: "files (writeFile ''dist/avatar.png'' ''GIF89a'' (initial demo_env Map.empty))
             ''dist/avatar.png'' = Some ''GIF89a''"
    by simp
  have 4: "suffix ''.png'' ''dist/avatar.png''"
    by (simp add: suffix_to_prefix)
  from C9_unknown_format_is_png_named_jpeg_compressed [OF 1 2 3 4, of demo_env]
  show ?thesis
    by (simp add: demo_env_def)
qed


text \<open>The quality loop, for an arbitrary list of qualities.\<close>

lemma sharp_present: "files s p = Some b \<Longrightarrow> sharp s p f = f b"
  by (simp add: sharp_def)

lemma webp_search_attempts:
  assumes "files w sp = Some src"
  shows "webp_attempts (trace (webp_search E sp wp n qs w)) =
           webp_attempts (trace w) @ takeWhile (\<lambda>q. \<not> qualifies E src n q) qs @
             (case find (qualifies E src n) qs of None \<Rightarrow> [] | Some Q \<Rightarrow> [Q])"
  using assms
proof (induction qs arbitrary: w)
  case Nil
  then show ?case by simp
next
  case (Cons q qs)
  from Cons.prems have enc: "sharp (emit (CallSharpWebp q) w) sp (sharp_webp E q) = sharp_webp E q src"
    by (simp add: sharp_present)
  show ?case
  proof (cases "sharp_webp E q src")
    case (Inl err)
    then have nq: "\<not> qualifies E src n q"
      by (simp add: qualifies_def)
    from Cons.IH [of "emit (LogWebPFailed q err) (emit (CallSharpWebp q) w)"] Cons.prems Inl enc nq
    show ?thesis
      by (simp add: Let_def)
  next
    case (Inr b)
    show ?thesis
    proof (cases "length b < n")
      case True
      with Inr have "qualifies E src n q"
        by (simp add: qualifies_def)
      with Inr True enc show ?thesis
        by (simp add: Let_def)
    next
      case False
      with Inr have nq: "\<not> qualifies E src n q"
        by (simp add: qualifies_def)
      from Cons.IH [of "emit (CallSharpWebp q) w"] Cons.prems Inr False enc nq
      show ?thesis
        by (simp add: Let_def)
    qed
  qed
qed

lemma webp_search_written:
  assumes "files w sp = Some src"
  shows "files (webp_search E sp wp n qs w) wp =
           (case find (qualifies E src n) qs of
              None \<Rightarrow> files w wp
            | Some Q \<Rightarrow> (case sharp_webp E Q src of Inl err \<Rightarrow> None | Inr b \<Rightarrow> Some b))"
  using assms
proof (induction qs arbitrary: w)
  case Nil
  then show ?case by simp
next
  case (Cons q qs)
  from Cons.prems have enc: "sharp (emit (CallSharpWebp q) w) sp (sharp_webp E q) = sharp_webp E q src"
    by (simp add: sharp_present)
  show ?case
  proof (cases "sharp_webp E q src")
    case (Inl err)
    then have nq: "\<not> qualifies E src n q"
      by (simp add: qualifies_def)
    from Cons.IH [of "emit (LogWebPFailed q err) (emit (CallSharpWebp q) w)"] Cons.prems Inl enc nq
    show ?thesis
      by (simp add: Let_def split: option.splits)
  next
    case (Inr b)
    show ?thesis
    proof (cases "length b < n")
      case True
      with Inr have "qualifies E src n q"
        by (simp add: qualifies_def)
      with Inr True enc show ?thesis
        by (simp add: Let_def split: option.splits)
    next
      case False
      with Inr have nq: "\<not> qualifies E src n q"
        by (simp add: qualifies_def)
      from Cons.IH [of "emit (CallSharpWebp q) w"] Cons.prems Inr False enc nq
      show ?thesis
        by (simp add: Let_def split: option.splits)
    qed
  qed
qed

lemma createWebP_attempts:
  assumes "files w sp = Some src"
  shows "webp_attempts (trace (snd (createWebP E sp n w))) =
           webp_attempts (trace w) @ takeWhile (\<lambda>q. \<not> qualifies E src n q) qualities @
             (case find (qualifies E src n) qualities of None \<Rightarrow> [] | Some Q \<Rightarrow> [Q])"
  by (simp add: createWebP_def Let_def sized_variants_attempts webp_search_attempts [OF assms])

lemma createWebP_written:
  assumes "files w (stem @ x) = Some src" and "x \<in> {''.png'', ''.jpg'', ''.jpeg''}"
  shows "files (snd (createWebP E (stem @ x) n w)) (stem @ ''.webp'') =
           (case find (qualifies E src n) qualities of
              None \<Rightarrow> files w (stem @ ''.webp'')
            | Some Q \<Rightarrow> (case sharp_webp E Q src of Inl err \<Rightarrow> None | Inr b \<Rightarrow> Some b))"
proof -
  have "\<forall>sz\<in>set sizes. stem @ ''.webp'' \<noteq> replace_ext (stem @ x) (''-'' @ dec sz @ ''w.jpg'') \<and>
                  stem @ ''.webp'' \<noteq> replace_ext (stem @ x) (''-'' @ dec sz @ ''w.webp'')"
    using assms(2) by (auto simp: replace_ext_known)
  then show ?thesis
    using assms(2) webp_search_written [OF assms(1), of E "stem @ ''.webp''" n qualities]
    by (auto simp: createWebP_def Let_def sized_variants_frame replace_ext_known)
qed

lemma first_success_stops:
  assumes "Q1 \<in> set qualities" and "P Q1" and "Q2 < Q1"
  shows "Q2 \<notin> set (takeWhile (\<lambda>q. \<not> P q) qualities @
                    (case find P qualities of None \<Rightarrow> [] | Some Q \<Rightarrow> [Q]))"
  using assms by (auto simp: qualities_def)


text \<open>
  C2, with the threshold that the code uses: \<^verbatim>\<open>createWebP\<close> compares against its argument
  \<open>originalSize\<close>, which \<^verbatim>\<open>optimizeImage\<close> sets to the length of the file before optimisation.
  The encodings attempted are those of the qualities 80, 75, 70, 65, 60 in this order up
  to and including the first one whose output is strictly shorter than \<open>originalSize\<close>
  (a quality at which the encoder throws does not qualify, and the next one is tried);
  the output at that quality is the WebP file; no quality below it is attempted; and if
  no quality qualifies, all five are attempted and the WebP file is left as it was (not
  written).
\<close>

theorem C2_quality_search_first_success:
  assumes "files w (stem @ x) = Some src" and "x \<in> {''.png'', ''.jpg'', ''.jpeg''}"
  shows "webp_attempts (trace (snd (createWebP E (stem @ x) originalSize w))) =
           webp_attempts (trace w) @
             takeWhile (\<lambda>q. \<not> qualifies E src originalSize q) qualities @
             (case find (qualifies E src originalSize) qualities of None \<Rightarrow> [] | Some Q \<Rightarrow> [Q]) \<and>
         files (snd (createWebP E (stem @ x) originalSize w)) (stem @ ''.webp'') =
           (case find (qualifies E src originalSize) qualities of
              None \<Rightarrow> files w (stem @ ''.webp'')
            | Some Q \<Rightarrow> (case sharp_webp E Q src of Inl err \<Rightarrow> None | Inr b \<Rightarrow> Some b)) \<and>
         (\<forall>Q1 Q2. Q1 \<in> set qualities \<and> qualifies E src originalSize Q1 \<and> Q2 < Q1 \<longrightarrow>
           Q2 \<notin> set (drop (length (webp_attempts (trace w)))
                        (webp_attempts (trace (snd (createWebP E (stem @ x) originalSize w))))))"
  using createWebP_attempts [OF assms(1), of E originalSize]
    createWebP_written [OF assms, of E originalSize]
    first_success_stops [of _ "qualifies E src originalSize"]
  by auto

text \<open>
  Scenario 2 of the specification in small: quality 80 is too large, the encoder throws
  at 75, quality 70 is accepted, 65 and 60 are never tried.
\<close>

theorem C2_quality_search_first_success_witness:
  "webp_attempts (trace (snd (createWebP demo_env ''dist/avatar.png'' 7
       (writeFile ''dist/avatar.png'' ''PNGd'' (initial demo_env Map.empty))))) = [80, 75, 70] \<and>
   files (snd (createWebP demo_env ''dist/avatar.png'' 7
       (writeFile ''dist/avatar.png'' ''PNGd'' (initial demo_env Map.empty)))) ''dist/avatar.webp''
     = Some ''w''"
proof -
  have present: "files (writeFile ''dist/avatar.png'' ''PNGd'' (initial demo_env Map.empty))
                   (''dist/avatar'' @ ''.png'') = Some ''PNGd''"
    by simp
  have x: "''.png'' \<in> {''.png'', ''.jpg'', ''.jpeg''}"
    by simp
  from C2_quality_search_first_success [OF present x, of demo_env 7]
  show ?thesis
    by (simp add: qualifies_def demo_env_def qualities_def initial_def)
qed

text \<open>
  C2 as stated compares against the size of the master. It fails when the optimizer has
  shortened the master: the four fetched bytes are optimised to a master of two bytes,
  every quality encodes to three bytes, which is not shorter than the master, and yet the
  WebP file is written.
\<close>

theorem C2_master_size_counterexample:
  "file_after (avatar_script shrink_env Map.empty) ''dist/avatar.png'' = Some [CHR 0x89, CHR 0x50] \<and>
   file_after (avatar_script shrink_env Map.empty) ''dist/avatar.webp'' = Some ''web'' \<and>
   sharp_webp shrink_env 80 [CHR 0x89, CHR 0x50] = Inr ''web'' \<and>
   sharp_webp shrink_env 75 [CHR 0x89, CHR 0x50] = Inr ''web'' \<and>
   sharp_webp shrink_env 70 [CHR 0x89, CHR 0x50] = Inr ''web'' \<and>
   sharp_webp shrink_env 65 [CHR 0x89, CHR 0x50] = Inr ''web'' \<and>
   sharp_webp shrink_env 60 [CHR 0x89, CHR 0x50] = Inr ''web''"
proof -
  have dl: "downloadAvatar (https_get shrink_env) =
              Some (Inr [CHR 0x89, CHR 0x50, CHR ''N'', CHR ''G''])"
    by (simp add: shrink_env_def downloadAvatar_net_png)
  show ?thesis
    unfolding avatar_script_def avatar_main_def dl
    by code_simp
qed

section \<open>Properties of the Reference Rewriter\<close>

text \<open>
  C3 fails on the code: \<^verbatim>\<open>AVATAR_WEBP_FILENAME\<close> starts as \<^verbatim>\<open>'avatar.webp'\<close> and is never
  cleared, so the guard of the \<^verbatim>\<open>srcset\<close> substitution is always true. Here every WebP
  encoding is longer than the fetched image, no \<^verbatim>\<open>avatar.webp\<close> is written, and the
  document still gets its WebP source set.
\<close>

theorem C3_srcset_rewritten_without_webp:
  \<open>file_after (avatar_script nowebp_env [''dist/index.html'' \<mapsto> picture_html])
     ''dist/avatar.webp'' = None \<and>
   file_after (avatar_script nowebp_env [''dist/index.html'' \<mapsto> picture_html])
     ''dist/index.html'' =
     Some ''<source srcset="/avatar-150w.webp 150w, /avatar-300w.webp 300w, /avatar-460w.webp 460w" sizes="(max-width: 460px) 150px, (max-width: 768px) 300px, 460px" type="image/webp">''\<close>
proof -
  have dl: "downloadAvatar (https_get nowebp_env) =
              Some (Inr [CHR 0x89, CHR 0x50, CHR ''N'', CHR ''G''])"
    by (simp add: nowebp_env_def downloadAvatar_net_png)
  show ?thesis
    unfolding avatar_script_def avatar_main_def dl
    by code_simp
qed





















lemma takeWhile_False [simp]: "takeWhile (\<lambda>c. False) xs = []"
  by (cases xs) simp_all

lemma dropWhile_False [simp]: "dropWhile (\<lambda>c. False) xs = xs"
  by (cases xs) simp_all
















































end
